theory Spec2Isabelle
  imports Main "HOL-Library.AList"
begin

section \<open>common/types: roles, principals and records\<close>

text \<open>
  \<^verbatim>\<open>type RoleType uint\<close> with the constants \<^verbatim>\<open>Admin, Ops, Invalid\<close> numbered by
  \<^verbatim>\<open>iota\<close>. The type is an unsigned integer, so values past \<^verbatim>\<open>Invalid\<close> exist and
  the zero value of a role is \<^verbatim>\<open>Admin\<close>. No arithmetic is done on roles.
\<close>

type_synonym RoleType = nat

definition Admin :: RoleType where
  "Admin = 0"

definition Ops :: RoleType where
  "Ops = 1"

definition Invalid :: RoleType where
  "Invalid = 2"

text \<open>\<^verbatim>\<open>TenantClaimKey\<close>, the prefix of a tenant claim key.\<close>

definition TenantClaimKey :: string where
  "TenantClaimKey = ''tenant:''"

text \<open>\<^verbatim>\<open>types.Principal\<close>: \<^verbatim>\<open>UUID\<close> (json "uuid") and \<^verbatim>\<open>Role\<close> (json "roletype").\<close>

record Principal =
  UUID :: string
  PrincipalRole :: RoleType

text \<open>\<^verbatim>\<open>types.LdapRoleMapping\<close>; its fields carry no json tags.\<close>

record LdapRoleMapping =
  GroupName :: string
  Principal :: Principal
  PrincipalID :: string

text \<open>
  \<^verbatim>\<open>types.LocalUser\<close> of common/types/types.go, the type the local-user store
  functions take: username, password ("password,omitempty"), disable and
  password_hash ("password_hash,omitempty"). A byte slice is a \<open>string\<close> here
  (a list of bytes).
\<close>

record LocalUser =
  Username :: string
  Password :: string
  Disable :: bool
  PasswordHash :: string

text \<open>
  \<^verbatim>\<open>types.InternalLocalUser\<close>, the type the proxy helpers build: the embedded
  \<^verbatim>\<open>LocalUser\<close> (username, password, disable) with its fields promoted, the
  Principal, the PrincipalID and the PasswordHash.
\<close>

record InternalLocalUser =
  ilu_Username :: string
  ilu_Password :: string
  ilu_Disable :: bool
  ilu_Principal :: Principal
  ilu_PrincipalID :: string
  ilu_PasswordHash :: string

text \<open>
  Error values. The four sentinels of \<^verbatim>\<open>ccnerrors\<close> are compared with \<^verbatim>\<open>==\<close> in the
  source, so each is a constructor. \<open>ErrorString\<close> is an error made by
  \<^verbatim>\<open>errors.New\<close> (a store driver's or the hash primitive's own failure), \<open>ErrJSON\<close>
  a failure of \<^verbatim>\<open>json.Unmarshal\<close>. \<open>Errorf f args\<close> is the error
  \<^verbatim>\<open>fmt.Errorf(f, args...)\<close>: the format string and the values formatted into it are
  kept as they are, so that what a message is built from can be read off the value.
\<close>

datatype error =
    ErrKeyExists
  | ErrKeyNotFound
  | ErrIllegalOperation
  | ErrIllegalArgument
  | ErrJSON
  | ErrorString string
  | Errorf string "fmtarg list"
and fmtarg =
    AErr error
  | AStr string
  | ARole RoleType
  | APrincipal Principal
  | ALdapRoleMapping LdapRoleMapping
  | ALocalUser LocalUser

text \<open>
  Whether the error \<open>e\<close> is formatted into the error \<open>r\<close>, directly or through a
  nested \<^verbatim>\<open>fmt.Errorf\<close>.
\<close>

fun carries :: "error \<Rightarrow> error \<Rightarrow> bool"
  and carries_arg :: "fmtarg \<Rightarrow> error \<Rightarrow> bool"
  and carries_args :: "fmtarg list \<Rightarrow> error \<Rightarrow> bool" where
  "carries (Errorf f args) e = carries_args args e"
| "carries ErrKeyExists e = False"
| "carries ErrKeyNotFound e = False"
| "carries ErrIllegalOperation e = False"
| "carries ErrIllegalArgument e = False"
| "carries ErrJSON e = False"
| "carries (ErrorString t) e = False"
| "carries_arg (AErr x) e = (x = e \<or> carries x e)"
| "carries_arg (AStr t) e = False"
| "carries_arg (ARole r) e = False"
| "carries_arg (APrincipal p) e = False"
| "carries_arg (ALdapRoleMapping m) e = False"
| "carries_arg (ALocalUser u) e = False"
| "carries_args [] e = False"
| "carries_args (a # as) e = (carries_arg a e \<or> carries_args as e)"

text \<open>\<^verbatim>\<open>func (role RoleType) String() string\<close>\<close>

definition RoleType_String :: "RoleType \<Rightarrow> string" where
  "RoleType_String role =
     (if role = Ops then ''ops''
      else if role = Admin then ''admin''
      else '''')"

text \<open>\<^verbatim>\<open>func Role(roleStr string) (RoleType, error)\<close>; \<open>None\<close> is the nil error.\<close>

definition Role :: "string \<Rightarrow> RoleType \<times> error option" where
  "Role roleStr =
     (if roleStr = RoleType_String Admin then (Admin, None)
      else if roleStr = RoleType_String Ops then (Ops, None)
      else (Invalid, Some ErrIllegalArgument))"

section \<open>proxy: the authorization view\<close>

text \<open>
  The fields of \<^verbatim>\<open>types.Authorization\<close> and of \<^verbatim>\<open>GetAuthorizationReply\<close> that
  \<^verbatim>\<open>convertAuthz\<close> reads and writes.
\<close>

record Authorization =
  authz_UUID :: string
  authz_PrincipalName :: string
  authz_ClaimKey :: string
  authz_ClaimValue :: string
  authz_Local :: bool

record GetAuthorizationReply =
  reply_AuthzUUID :: string
  reply_PrincipalName :: string
  reply_TenantName :: string
  reply_Local :: bool
  reply_Role :: string

text \<open>\<^verbatim>\<open>strings.TrimPrefix(s, prefix)\<close>: \<open>s\<close> without the prefix when it has it, else \<open>s\<close>.\<close>

definition TrimPrefix :: "string \<Rightarrow> string \<Rightarrow> string" where
  "TrimPrefix s pfx =
     (if take (length pfx) s = pfx then drop (length pfx) s else s)"

definition convertAuthz :: "Authorization \<Rightarrow> GetAuthorizationReply" where
  "convertAuthz authz =
     \<lparr> reply_AuthzUUID = authz_UUID authz,
       reply_PrincipalName = authz_PrincipalName authz,
       reply_TenantName = TrimPrefix (authz_ClaimKey authz) TenantClaimKey,
       reply_Local = authz_Local authz,
       reply_Role = authz_ClaimValue authz \<rparr>"

section \<open>The state access port\<close>

text \<open>
  What a key holds: the JSON document \<^verbatim>\<open>json.Marshal\<close> produced, as a syntax tree.
  \<open>JBytes\<close> is the JSON string that encodes a byte slice in base64.
\<close>

datatype json =
    JBool bool
  | JNum nat
  | JStr string
  | JBytes string
  | JObj "(string \<times> json) list"

text \<open>The calls made on the state driver, in the order they are made.\<close>

datatype drvop =
    OpRead string
  | OpReadAll string
  | OpWrite string json
  | OpClear string

text \<open>
  Modelled from the spec: the state driver (package \<^verbatim>\<open>state\<close> and the
  \<^verbatim>\<open>types.StateDriver\<close> interface) is not among the sources. The spec gives the port
  as single-key \<^verbatim>\<open>read(key) -> bytes | NotFound\<close>, \<^verbatim>\<open>write(key, bytes) -> ok | error\<close>,
  \<^verbatim>\<open>clear(key) -> ok | error\<close> and \<^verbatim>\<open>read_all(prefix) -> list | NotFound-if-empty\<close>,
  with no atomicity across keys and failures possible at every call.

  \<open>kv\<close> is the content of the store, in insertion order. \<open>faults\<close> is the outcome
  the store has in stock for each coming call: \<open>None\<close> lets the call act on \<open>kv\<close>,
  \<open>Some e\<close> makes it fail with \<open>e\<close> and leave \<open>kv\<close> alone; an exhausted list means
  no more failures. \<open>oplog\<close> records every call. \<open>driver\<close> is what
  \<^verbatim>\<open>state.GetStateDriver()\<close> answers: \<open>None\<close> for a driver, \<open>Some e\<close> for its error.
\<close>

record store =
  kv :: "(string \<times> json) list"
  faults :: "error option list"
  oplog :: "drvop list"
  driver :: "error option"

text \<open>
  Modelled from the spec: \<^verbatim>\<open>state.GetStateDriver()\<close> is not among the sources; it
  answers with the driver or with an error.
\<close>

definition GetStateDriver :: "store \<Rightarrow> error option" where
  "GetStateDriver s = driver s"

text \<open>
  Modelled from the spec: the driver is not among the sources; each of its calls can
  fail ("ok | error"). A call is logged and takes the next outcome the store has in
  stock.
\<close>

definition issue :: "drvop \<Rightarrow> store \<Rightarrow> error option \<times> store" where
  "issue c s =
     (case faults s of
        [] \<Rightarrow> (None, s\<lparr>oplog := oplog s @ [c]\<rparr>)
      | f # fs \<Rightarrow> (f, s\<lparr>faults := fs, oplog := oplog s @ [c]\<rparr>))"

text \<open>
  Modelled from the spec: \<^verbatim>\<open>Read\<close> of the driver, not among the sources;
  \<^verbatim>\<open>read(key) -> bytes | NotFound\<close>.
\<close>

definition Read :: "string \<Rightarrow> store \<Rightarrow> (error + json) \<times> store" where
  "Read key s =
     (case issue (OpRead key) s of
        (Some e, s1) \<Rightarrow> (Inl e, s1)
      | (None, s1) \<Rightarrow>
          (case map_of (kv s1) key of
             None \<Rightarrow> (Inl ErrKeyNotFound, s1)
           | Some v \<Rightarrow> (Inr v, s1)))"

text \<open>
  Modelled from the spec: \<^verbatim>\<open>Write\<close> of the driver, not among the sources;
  \<^verbatim>\<open>write(key, bytes) -> ok | error\<close>. A write to an occupied key replaces its
  document.
\<close>

definition Write :: "string \<Rightarrow> json \<Rightarrow> store \<Rightarrow> error option \<times> store" where
  "Write key val s =
     (case issue (OpWrite key val) s of
        (Some e, s1) \<Rightarrow> (Some e, s1)
      | (None, s1) \<Rightarrow> (None, s1\<lparr>kv := AList.update key val (kv s1)\<rparr>))"

text \<open>
  Modelled from the spec: \<^verbatim>\<open>ClearState\<close> of the driver (named \<^verbatim>\<open>Clear\<close> where the
  local-user functions call it), not among the sources; \<^verbatim>\<open>clear(key) -> ok | error\<close>.
  Whether clearing an absent key is an error is up to the store: it is one of the
  failures \<open>faults\<close> can hold.
\<close>

definition ClearState :: "string \<Rightarrow> store \<Rightarrow> error option \<times> store" where
  "ClearState key s =
     (case issue (OpClear key) s of
        (Some e, s1) \<Rightarrow> (Some e, s1)
      | (None, s1) \<Rightarrow> (None, s1\<lparr>kv := AList.delete key (kv s1)\<rparr>))"

text \<open>
  Modelled from the spec: the documents under a directory, those whose key is the
  directory, a slash and more (hierarchical keys).
\<close>

definition children :: "string \<Rightarrow> (string \<times> json) list \<Rightarrow> json list" where
  "children dir al = map snd (filter (\<lambda>(k, v). take (length dir + 1) k = dir @ ''/'') al)"

text \<open>
  Modelled from the spec: \<^verbatim>\<open>ReadAll\<close> of the driver, not among the sources;
  \<^verbatim>\<open>read_all(prefix) -> list | NotFound-if-empty\<close>.
\<close>

definition ReadAll :: "string \<Rightarrow> store \<Rightarrow> (error + json list) \<times> store" where
  "ReadAll dir s =
     (case issue (OpReadAll dir) s of
        (Some e, s1) \<Rightarrow> (Inl e, s1)
      | (None, s1) \<Rightarrow>
          (if children dir (kv s1) = [] then (Inl ErrKeyNotFound, s1)
           else (Inr (children dir (kv s1)), s1)))"

text \<open>
  Modelled from the spec: the three roots are not among the sources. The spec puts
  local users, LDAP mappings and principals each "under a fixed root"; the roots are
  the paths the comments of the source name.
\<close>

definition RootPrincipals :: string where
  "RootPrincipals = ''/ccn_proxy/principals''"

definition RootLdapMappings :: string where
  "RootLdapMappings = ''/ccn_proxy/ldap_mappings''"

definition RootLocalUsers :: string where
  "RootLocalUsers = ''/ccn_proxy/local_users''"

text \<open>
  Modelled from the spec: \<^verbatim>\<open>GetPath\<close> is not among the sources. The spec has the keys
  hierarchical, a record "under a fixed root plus" its name: the root, then each
  further part after a slash.
\<close>

definition GetPath :: "string \<Rightarrow> string list \<Rightarrow> string" where
  "GetPath root args = foldl (\<lambda>p a. p @ ''/'' @ a) root args"

text \<open>
  Modelled from the spec: \<^verbatim>\<open>common.IsEmpty\<close> is not among the sources; the spec reads
  it as "empty/absent". The statements below keep it abstract or apply it to the empty
  string and to strings without white space.
\<close>

definition IsEmpty :: "string \<Rightarrow> bool" where
  "IsEmpty str = (str = [])"

section \<open>encoding/json on the stored types\<close>

text \<open>
  \<^verbatim>\<open>json.Marshal\<close> follows the struct tags: a field tagged \<^verbatim>\<open>omitempty\<close> is left
  out when it is empty. On these structs it cannot fail, so the source's branch for a
  marshalling error has no counterpart.
\<close>

definition marshal_Principal :: "Principal \<Rightarrow> json" where
  "marshal_Principal p =
     JObj [(''uuid'', JStr (UUID p)), (''roletype'', JNum (PrincipalRole p))]"

definition marshal_LdapRoleMapping :: "LdapRoleMapping \<Rightarrow> json" where
  "marshal_LdapRoleMapping m =
     JObj [(''GroupName'', JStr (GroupName m)),
           (''Principal'', marshal_Principal (Principal m)),
           (''PrincipalID'', JStr (PrincipalID m))]"

definition marshal_LocalUser :: "LocalUser \<Rightarrow> json" where
  "marshal_LocalUser u =
     JObj ([(''username'', JStr (Username u))]
           @ (if Password u = [] then [] else [(''password'', JStr (Password u))])
           @ [(''disable'', JBool (Disable u))]
           @ (if PasswordHash u = [] then [] else [(''password_hash'', JBytes (PasswordHash u))]))"

text \<open>
  \<^verbatim>\<open>json.Unmarshal\<close> into a struct: a member the document lacks keeps the field's zero
  value, a member of the wrong JSON type is an error, and so is a document that is not
  an object. Members are matched by their exact name and the first of two members of
  one name is taken, where encoding/json also matches names without regard to case,
  takes the last and bounds a number by its field's type; strings are taken to be
  valid UTF-8, which \<^verbatim>\<open>json.Marshal\<close> enforces by replacement. The two agree on every
  document the functions below write for such strings.
\<close>

definition str_field :: "(string \<times> json) list \<Rightarrow> string \<Rightarrow> error + string" where
  "str_field fs name =
     (case map_of fs name of
        None \<Rightarrow> Inr []
      | Some (JStr v) \<Rightarrow> Inr v
      | Some _ \<Rightarrow> Inl ErrJSON)"

definition bytes_field :: "(string \<times> json) list \<Rightarrow> string \<Rightarrow> error + string" where
  "bytes_field fs name =
     (case map_of fs name of
        None \<Rightarrow> Inr []
      | Some (JBytes v) \<Rightarrow> Inr v
      | Some _ \<Rightarrow> Inl ErrJSON)"

definition bool_field :: "(string \<times> json) list \<Rightarrow> string \<Rightarrow> error + bool" where
  "bool_field fs name =
     (case map_of fs name of
        None \<Rightarrow> Inr False
      | Some (JBool v) \<Rightarrow> Inr v
      | Some _ \<Rightarrow> Inl ErrJSON)"

definition num_field :: "(string \<times> json) list \<Rightarrow> string \<Rightarrow> error + nat" where
  "num_field fs name =
     (case map_of fs name of
        None \<Rightarrow> Inr 0
      | Some (JNum v) \<Rightarrow> Inr v
      | Some _ \<Rightarrow> Inl ErrJSON)"

definition unmarshal_Principal :: "json \<Rightarrow> error + Principal" where
  "unmarshal_Principal j =
     (case j of
        JObj fs \<Rightarrow>
          (case str_field fs ''uuid'' of
             Inl e \<Rightarrow> Inl e
           | Inr u \<Rightarrow>
               (case num_field fs ''roletype'' of
                  Inl e \<Rightarrow> Inl e
                | Inr r \<Rightarrow> Inr \<lparr>UUID = u, PrincipalRole = r\<rparr>))
      | _ \<Rightarrow> Inl ErrJSON)"

definition unmarshal_LdapRoleMapping :: "json \<Rightarrow> error + LdapRoleMapping" where
  "unmarshal_LdapRoleMapping j =
     (case j of
        JObj fs \<Rightarrow>
          (case str_field fs ''GroupName'' of
             Inl e \<Rightarrow> Inl e
           | Inr g \<Rightarrow>
               (case (case map_of fs ''Principal'' of
                        None \<Rightarrow> Inr \<lparr>UUID = [], PrincipalRole = 0\<rparr>
                      | Some pj \<Rightarrow> unmarshal_Principal pj) of
                  Inl e \<Rightarrow> Inl e
                | Inr p \<Rightarrow>
                    (case str_field fs ''PrincipalID'' of
                       Inl e \<Rightarrow> Inl e
                     | Inr pid \<Rightarrow> Inr \<lparr>GroupName = g, Principal = p, PrincipalID = pid\<rparr>)))
      | _ \<Rightarrow> Inl ErrJSON)"

definition unmarshal_LocalUser :: "json \<Rightarrow> error + LocalUser" where
  "unmarshal_LocalUser j =
     (case j of
        JObj fs \<Rightarrow>
          (case str_field fs ''username'' of
             Inl e \<Rightarrow> Inl e
           | Inr u \<Rightarrow>
               (case str_field fs ''password'' of
                  Inl e \<Rightarrow> Inl e
                | Inr p \<Rightarrow>
                    (case bool_field fs ''disable'' of
                       Inl e \<Rightarrow> Inl e
                     | Inr d \<Rightarrow>
                         (case bytes_field fs ''password_hash'' of
                            Inl e \<Rightarrow> Inl e
                          | Inr h \<Rightarrow>
                              Inr \<lparr>Username = u, Password = p, Disable = d, PasswordHash = h\<rparr>))))
      | _ \<Rightarrow> Inl ErrJSON)"

section \<open>usermgmt: principals and LDAP mappings\<close>

text \<open>
  A function that returns \<^verbatim>\<open>error\<close> returns \<open>error option\<close> and the store after it;
  one that returns a value and an error returns \<open>error + value\<close>.
\<close>

definition deletePrincipal :: "Principal \<Rightarrow> store \<Rightarrow> error option \<times> store" where
  "deletePrincipal princ s =
     (case ClearState (GetPath RootPrincipals [UUID princ]) s of
        (Some err, s1) \<Rightarrow>
          (Some (Errorf ''Failed to clear principal %#v from store %#v''
                   [APrincipal princ, AErr err]), s1)
      | (None, s1) \<Rightarrow> (None, s1))"

definition addPrincipal :: "Principal \<Rightarrow> store \<Rightarrow> error option \<times> store" where
  "addPrincipal princ s =
     (case Read (GetPath RootPrincipals [UUID princ]) s of
        (Inr _, s1) \<Rightarrow>
          (Some (Errorf ''%s: %q'' [AErr ErrKeyExists, AStr (UUID princ)]), s1)
      | (Inl err, s1) \<Rightarrow>
          if err = ErrKeyNotFound then
            (case Write (GetPath RootPrincipals [UUID princ]) (marshal_Principal princ) s1 of
               (Some err, s2) \<Rightarrow>
                 (Some (Errorf ''Failed to write local user principal to data store %#v''
                          [AErr err]), s2)
             | (None, s2) \<Rightarrow> (None, s2))
          else (Some err, s1))"

definition getLdapMapping :: "string \<Rightarrow> store \<Rightarrow> (error + LdapRoleMapping) \<times> store" where
  "getLdapMapping ldapGroupName s =
     (case Read (GetPath RootLdapMappings [ldapGroupName]) s of
        (Inl err, s1) \<Rightarrow>
          if err = ErrKeyNotFound then (Inl err, s1)
          else (Inl (Errorf ''Failed to read LDAP mapping  for group %q from data store: %#v''
                       [AStr ldapGroupName, AErr err]), s1)
      | (Inr rawData, s1) \<Rightarrow>
          (case unmarshal_LdapRoleMapping rawData of
             Inl err \<Rightarrow>
               (Inl (Errorf ''Failed to unmarshal LDAP mapping for group %q: %#v''
                       [AStr ldapGroupName, AErr err]), s1)
           | Inr ldapMapping \<Rightarrow> (Inr ldapMapping, s1)))"

definition AddLdapMapping :: "LdapRoleMapping \<Rightarrow> store \<Rightarrow> error option \<times> store" where
  "AddLdapMapping ldapMapping s =
     (case GetStateDriver s of
        Some err \<Rightarrow> (Some err, s)
      | None \<Rightarrow>
          (case getLdapMapping (GroupName ldapMapping) s of
             (Inr _, s1) \<Rightarrow> (Some ErrKeyExists, s1)
           | (Inl err, s1) \<Rightarrow>
               if err = ErrKeyNotFound then
                 (case addPrincipal (Principal ldapMapping) s1 of
                    (Some err, s2) \<Rightarrow> (Some err, s2)
                  | (None, s2) \<Rightarrow>
                      (case Write (GetPath RootLdapMappings [GroupName ldapMapping])
                                  (marshal_LdapRoleMapping ldapMapping) s2 of
                         (Some err, s3) \<Rightarrow>
                           (case deletePrincipal (Principal ldapMapping) s3 of
                              (_, s4) \<Rightarrow>
                                (Some (Errorf ''Failed to write LDAP group mapping info. to data store: %#v''
                                         [AErr err]), s4))
                       | (None, s3) \<Rightarrow> (None, s3)))
               else (Some err, s1)))"

definition DeleteLdapMapping :: "string \<Rightarrow> store \<Rightarrow> error option \<times> store" where
  "DeleteLdapMapping ldapGroupName s =
     (case GetStateDriver s of
        Some err \<Rightarrow> (Some err, s)
      | None \<Rightarrow>
          (case getLdapMapping ldapGroupName s of
             (Inl err, s1) \<Rightarrow> (Some err, s1)
           | (Inr ldapMapping, s1) \<Rightarrow>
               (case deletePrincipal (Principal ldapMapping) s1 of
                  (Some err, s2) \<Rightarrow> (Some err, s2)
                | (None, s2) \<Rightarrow>
                    (case ClearState (GetPath RootLdapMappings [ldapGroupName]) s2 of
                       (Some err, s3) \<Rightarrow>
                         (case addPrincipal (Principal ldapMapping) s3 of
                            (_, s4) \<Rightarrow>
                              (Some (Errorf ''Failed to delete group %q from store: %#v''
                                       [AStr ldapGroupName, AErr err]), s4))
                     | (None, s3) \<Rightarrow> (None, s3)))))"

definition UpdateLdapMapping :: "string \<Rightarrow> LdapRoleMapping \<Rightarrow> store \<Rightarrow> error option \<times> store" where
  "UpdateLdapMapping ldapGroupName ldapMapping s =
     (case DeleteLdapMapping ldapGroupName s of
        (None, s1) \<Rightarrow> AddLdapMapping ldapMapping s1
      | (Some err, s1) \<Rightarrow>
          if err = ErrKeyNotFound then (Some err, s1)
          else (Some (Errorf ''Couldn't update ldap mapping information for group %q''
                        [AStr ldapGroupName]), s1))"

definition GetLdapMapping :: "string \<Rightarrow> store \<Rightarrow> (error + LdapRoleMapping) \<times> store" where
  "GetLdapMapping ldapGroupName s =
     (case GetStateDriver s of
        Some err \<Rightarrow> (Inl err, s)
      | None \<Rightarrow> getLdapMapping ldapGroupName s)"

text \<open>The loop of \<^verbatim>\<open>GetLdapMappings\<close> over the raw documents, appending to \<open>mappings\<close>.\<close>

fun unmarshal_mappings :: "json list \<Rightarrow> LdapRoleMapping list \<Rightarrow> error + LdapRoleMapping list" where
  "unmarshal_mappings [] mappings = Inr mappings"
| "unmarshal_mappings (data # rawData) mappings =
     (case unmarshal_LdapRoleMapping data of
        Inl err \<Rightarrow> Inl err
      | Inr ldapMapping \<Rightarrow> unmarshal_mappings rawData (mappings @ [ldapMapping]))"

definition GetLdapMappings :: "store \<Rightarrow> (error + LdapRoleMapping list) \<times> store" where
  "GetLdapMappings s =
     (case GetStateDriver s of
        Some err \<Rightarrow> (Inl err, s)
      | None \<Rightarrow>
          (case ReadAll (GetPath RootLdapMappings []) s of
             (Inl err, s1) \<Rightarrow>
               if err = ErrKeyNotFound then (Inr [], s1)
               else (Inl (Errorf ''Couldn't fetch LDAP mappings from data store'' []), s1)
           | (Inr rawData, s1) \<Rightarrow> (unmarshal_mappings rawData [], s1)))"

section \<open>usermgmt: local users\<close>

definition getLocalUser :: "string \<Rightarrow> store \<Rightarrow> (error + LocalUser) \<times> store" where
  "getLocalUser username s =
     (case Read (GetPath RootLocalUsers [username]) s of
        (Inl err, s1) \<Rightarrow>
          if err = ErrKeyNotFound then (Inl err, s1)
          else (Inl (Errorf ''Failed to read local user %q data from store: %#v''
                       [AStr username, AErr err]), s1)
      | (Inr rawData, s1) \<Rightarrow>
          (case unmarshal_LocalUser rawData of
             Inl err \<Rightarrow>
               (Inl (Errorf ''Failed to unmarshal local user %q info %#v''
                       [AStr username, AErr err]), s1)
           | Inr localUser \<Rightarrow> (Inr localUser, s1)))"

fun unmarshal_users :: "json list \<Rightarrow> LocalUser list \<Rightarrow> error + LocalUser list" where
  "unmarshal_users [] users = Inr users"
| "unmarshal_users (data # rawData) users =
     (case unmarshal_LocalUser data of
        Inl err \<Rightarrow> Inl err
      | Inr localUser \<Rightarrow> unmarshal_users rawData (users @ [localUser]))"

definition GetLocalUsers :: "store \<Rightarrow> (error + LocalUser list) \<times> store" where
  "GetLocalUsers s =
     (case GetStateDriver s of
        Some err \<Rightarrow> (Inl err, s)
      | None \<Rightarrow>
          (case ReadAll (GetPath RootLocalUsers []) s of
             (Inl err, s1) \<Rightarrow>
               if err = ErrKeyNotFound then (Inr [], s1)
               else (Inl (Errorf ''Couldn't fetch users from data store'' []), s1)
           | (Inr rawData, s1) \<Rightarrow> (unmarshal_users rawData [], s1)))"

definition GetLocalUser :: "string \<Rightarrow> store \<Rightarrow> (error + LocalUser) \<times> store" where
  "GetLocalUser username s =
     (case GetStateDriver s of
        Some err \<Rightarrow> (Inl err, s)
      | None \<Rightarrow> getLocalUser username s)"

definition DeleteLocalUser :: "string \<Rightarrow> store \<Rightarrow> error option \<times> store" where
  "DeleteLocalUser username s =
     (if username = RoleType_String Admin \<or> username = RoleType_String Ops
      then (Some ErrIllegalOperation, s)
      else
        (case GetStateDriver s of
           Some err \<Rightarrow> (Some err, s)
         | None \<Rightarrow>
             (case getLocalUser username s of
                (Inl err, s1) \<Rightarrow> (Some err, s1)
              | (Inr _, s1) \<Rightarrow>
                  (case ClearState (GetPath RootLocalUsers [username]) s1 of
                     (Some err, s2) \<Rightarrow>
                       (Some (Errorf ''Failed to clear %q from store %#v''
                                [AStr username, AErr err]), s2)
                   | (None, s2) \<Rightarrow> (None, s2)))))"

text \<open>
  \<^verbatim>\<open>AddLocalUser\<close> writes through its pointer argument (the hash, then the cleared
  password), so the user as the call leaves it is returned beside the error.
  \<open>GenPasswordHash\<close> is \<^verbatim>\<open>common.GenPasswordHash\<close>, the hashing primitive, taken as a
  parameter: it returns the digest and an error.
\<close>

definition AddLocalUser ::
  "(string \<Rightarrow> string \<times> error option) \<Rightarrow> LocalUser \<Rightarrow> store \<Rightarrow> error option \<times> LocalUser \<times> store" where
  "AddLocalUser GenPasswordHash user s =
     (case GetStateDriver s of
        Some err \<Rightarrow> (Some err, user, s)
      | None \<Rightarrow>
          (let key = GetPath RootLocalUsers [Username user] in
           case Read key s of
             (Inr _, s1) \<Rightarrow> (Some ErrKeyExists, user, s1)
           | (Inl err, s1) \<Rightarrow>
               if err = ErrKeyNotFound then
                 (case (if IsEmpty (PasswordHash user)
                        then (case GenPasswordHash (Password user) of
                                (hash, err) \<Rightarrow> (user\<lparr>PasswordHash := hash\<rparr>, err))
                        else (user, None)) of
                    (user1, Some err) \<Rightarrow> (Some err, user1, s1)
                  | (user1, None) \<Rightarrow>
                      (let user2 = user1\<lparr>Password := []\<rparr> in
                       case Write key (marshal_LocalUser user2) s1 of
                         (Some err, s2) \<Rightarrow>
                           (Some (Errorf ''Failed to write local user info. to data store %#v''
                                    [AErr err]), user2, s2)
                       | (None, s2) \<Rightarrow> (None, user2, s2)))
               else (Some err, user, s1)))"

definition UpdateLocalUser ::
  "(string \<Rightarrow> string \<times> error option) \<Rightarrow> string \<Rightarrow> LocalUser \<Rightarrow> store
     \<Rightarrow> error option \<times> LocalUser \<times> store" where
  "UpdateLocalUser GenPasswordHash username user s =
     (case DeleteLocalUser username s of
        (None, s1) \<Rightarrow>
          AddLocalUser GenPasswordHash
            (if \<not> IsEmpty (Password user) then user\<lparr>PasswordHash := []\<rparr> else user) s1
      | (Some err, s1) \<Rightarrow>
          if err = ErrKeyNotFound \<or> err = ErrIllegalOperation then (Some err, user, s1)
          else (Some (Errorf ''Couldn't update user information: %q'' [AStr username]), user, s1))"

text \<open>
  \<^verbatim>\<open>AddDefaultUsers\<close>: the loop over \<^verbatim>\<open>[Admin, Ops]\<close>; an existing user is
  skipped, any other error ends the loop.
\<close>

fun add_defaults ::
  "(string \<Rightarrow> string \<times> error option) \<Rightarrow> RoleType list \<Rightarrow> store \<Rightarrow> error option \<times> store" where
  "add_defaults GenPasswordHash [] s = (None, s)"
| "add_defaults GenPasswordHash (userR # rest) s =
     (case AddLocalUser GenPasswordHash
             \<lparr>Username = RoleType_String userR, Password = RoleType_String userR,
              Disable = False, PasswordHash = []\<rparr> s of
        (None, _, s1) \<Rightarrow> add_defaults GenPasswordHash rest s1
      | (Some err, _, s1) \<Rightarrow>
          if err = ErrKeyExists then add_defaults GenPasswordHash rest s1
          else (Some err, s1))"

definition AddDefaultUsers ::
  "(string \<Rightarrow> string \<times> error option) \<Rightarrow> store \<Rightarrow> error option \<times> store" where
  "AddDefaultUsers GenPasswordHash s = add_defaults GenPasswordHash [Admin, Ops] s"

section \<open>proxy: the helpers of the user-management handlers\<close>

text \<open>
  The request and reply structs of package proxy: \<^verbatim>\<open>ldapMapping\<close> (group name, role),
  \<^verbatim>\<open>localUser\<close> (username, disable, role) and \<^verbatim>\<open>localUserCreateRequest\<close> (username,
  password, disable, role), with the fields the helpers use.
\<close>

record ldapMapping =
  lm_GroupName :: string
  lm_Role :: string

record localUser =
  lu_Username :: string
  lu_Disable :: bool
  lu_Role :: string

record localUserCreateRequest =
  req_Username :: string
  req_Password :: string
  req_Disable :: bool
  req_Role :: string

text \<open>
  The second result of a helper, the response bytes: nil, the JSON of a reply struct,
  \<^verbatim>\<open>[]byte(err.Error())\<close>, a literal message or a \<^verbatim>\<open>fmt.Sprintf\<close>.
\<close>

datatype body =
    BNil
  | BLdapMapping ldapMapping
  | BLocalUser localUser
  | BError error
  | BText string
  | BSprintf string "fmtarg list"

definition StatusOK :: nat where
  "StatusOK = 200"

definition StatusCreated :: nat where
  "StatusCreated = 201"

definition StatusNoContent :: nat where
  "StatusNoContent = 204"

definition StatusBadRequest :: nat where
  "StatusBadRequest = 400"

definition StatusNotFound :: nat where
  "StatusNotFound = 404"

definition StatusInternalServerError :: nat where
  "StatusInternalServerError = 500"

definition updateLdapMappingInfo ::
  "ldapMapping \<Rightarrow> LdapRoleMapping \<Rightarrow> store \<Rightarrow> (nat \<times> body) \<times> store" where
  "updateLdapMappingInfo updateReq actual s =
     (let updateMappingObj =
            \<lparr>GroupName = GroupName actual,
             Principal = \<lparr>UUID = UUID (Principal actual), PrincipalRole = 0\<rparr>,
             PrincipalID = PrincipalID actual\<rparr>
      in
      case (if \<not> IsEmpty (lm_Role updateReq)
            then (case Role (lm_Role updateReq) of
                    (role, Some err) \<Rightarrow>
                      Inl (StatusInternalServerError, BSprintf ''Invalid role %q'' [ARole role])
                  | (role, None) \<Rightarrow>
                      Inr (updateMappingObj\<lparr>Principal :=
                             (Principal updateMappingObj)\<lparr>PrincipalRole := role\<rparr>\<rparr>, True))
            else Inr (updateMappingObj, False)) of
        Inl resp \<Rightarrow> (resp, s)
      | Inr (updateMappingObj, updateRequired) \<Rightarrow>
          (let lm = \<lparr>lm_GroupName = GroupName actual,
                     lm_Role = RoleType_String (PrincipalRole (Principal actual))\<rparr>
           in
           if \<not> updateRequired then ((StatusOK, BLdapMapping lm), s)
           else
             (case UpdateLdapMapping (GroupName actual) updateMappingObj s of
                (None, s1) \<Rightarrow>
                  ((StatusOK,
                    BLdapMapping (lm\<lparr>lm_Role :=
                      RoleType_String (PrincipalRole (Principal updateMappingObj))\<rparr>)), s1)
              | (Some err, s1) \<Rightarrow>
                  if err = ErrKeyNotFound then ((StatusNotFound, BNil), s1)
                  else ((StatusInternalServerError, BError err), s1))))"

definition updateLdapMappingHelper ::
  "string \<Rightarrow> ldapMapping \<Rightarrow> store \<Rightarrow> (nat \<times> body) \<times> store" where
  "updateLdapMappingHelper ldapGroupName ldapMappingUpdateReq s =
     (if IsEmpty ldapGroupName then ((StatusBadRequest, BText ''Empty group name''), s)
      else
        (case GetLdapMapping ldapGroupName s of
           (Inr mapping, s1) \<Rightarrow> updateLdapMappingInfo ldapMappingUpdateReq mapping s1
         | (Inl err, s1) \<Rightarrow>
             if err = ErrKeyNotFound then ((StatusNotFound, BNil), s1)
             else ((StatusInternalServerError, BError err), s1)))"

text \<open>
  \<^verbatim>\<open>addLdapMappingHelper\<close>; \<open>pID\<close> is the identifier \<^verbatim>\<open>uuid.NewV4().String()\<close>
  draws.
\<close>

definition addLdapMappingHelper ::
  "string \<Rightarrow> ldapMapping \<Rightarrow> store \<Rightarrow> (nat \<times> body) \<times> store" where
  "addLdapMappingHelper pID ldapMappingReq s =
     (if IsEmpty (lm_GroupName ldapMappingReq)
      then ((StatusBadRequest, BText ''Empty group name''), s)
      else
        (case Role (lm_Role ldapMappingReq) of
           (role, Some err) \<Rightarrow>
             ((StatusBadRequest, BSprintf ''Invalid role %q'' [AStr (lm_Role ldapMappingReq)]), s)
         | (role, None) \<Rightarrow>
             (let mapping = \<lparr>GroupName = lm_GroupName ldapMappingReq,
                             Principal = \<lparr>UUID = pID, PrincipalRole = role\<rparr>,
                             PrincipalID = pID\<rparr>
              in
              case AddLdapMapping mapping s of
                (None, s1) \<Rightarrow>
                  ((StatusCreated,
                    BLdapMapping \<lparr>lm_GroupName = GroupName mapping,
                                   lm_Role = RoleType_String (PrincipalRole (Principal mapping))\<rparr>), s1)
              | (Some err, s1) \<Rightarrow>
                  if err = ErrKeyExists
                  then ((StatusBadRequest,
                         BSprintf ''Mapping for group %q exists already''
                           [AStr (lm_GroupName ldapMappingReq)]), s1)
                  else ((StatusInternalServerError, BError err), s1))))"

text \<open>
  The helpers hand a \<^verbatim>\<open>*types.InternalLocalUser\<close> to \<^verbatim>\<open>usermgmt.UpdateLocalUser\<close>,
  whose definition takes the \<^verbatim>\<open>*types.LocalUser\<close> of common/types/types.go. The store
  functions read the username, the password, the disable flag and the password hash
  of their argument and nothing else; \<open>asLocalUser\<close> passes these four on.
\<close>

definition asLocalUser :: "InternalLocalUser \<Rightarrow> LocalUser" where
  "asLocalUser u =
     \<lparr>Username = ilu_Username u, Password = ilu_Password u,
      Disable = ilu_Disable u, PasswordHash = ilu_PasswordHash u\<rparr>"

definition updateLocalUserInfo ::
  "(string \<Rightarrow> string \<times> error option) \<Rightarrow> string \<Rightarrow> localUserCreateRequest \<Rightarrow> InternalLocalUser
     \<Rightarrow> store \<Rightarrow> (nat \<times> body) \<times> store" where
  "updateLocalUserInfo GenPasswordHash username updateReq actual s =
     (let updatedUserObj =
            \<lparr>ilu_Username = ilu_Username actual, ilu_Password = [], ilu_Disable = False,
             ilu_Principal = \<lparr>UUID = ilu_PrincipalID actual, PrincipalRole = 0\<rparr>,
             ilu_PrincipalID = ilu_PrincipalID actual, ilu_PasswordHash = []\<rparr>
      in
      case (if \<not> IsEmpty (req_Role updateReq)
            then (case Role (req_Role updateReq) of
                    (role, Some err) \<Rightarrow>
                      Inl (StatusInternalServerError,
                           BSprintf ''Failed to map role %q'' [AStr (req_Role updateReq)])
                  | (role, None) \<Rightarrow>
                      Inr (updatedUserObj\<lparr>ilu_Principal :=
                             (ilu_Principal updatedUserObj)\<lparr>PrincipalRole := role\<rparr>\<rparr>))
            else Inr updatedUserObj) of
        Inl resp \<Rightarrow> (resp, s)
      | Inr updatedUserObj \<Rightarrow>
          (let updatedUserObj =
                 (if ilu_Disable actual \<noteq> req_Disable updateReq
                  then updatedUserObj\<lparr>ilu_Disable := req_Disable updateReq\<rparr>
                  else updatedUserObj)
           in
           case (if \<not> IsEmpty (req_Password updateReq)
                 then (case GenPasswordHash (req_Password updateReq) of
                         (hash, Some err) \<Rightarrow>
                           Inl (StatusInternalServerError,
                                BSprintf ''Failed to create password hash for user %q''
                                  [AStr username])
                       | (hash, None) \<Rightarrow> Inr (updatedUserObj\<lparr>ilu_PasswordHash := hash\<rparr>))
                 else Inr updatedUserObj) of
             Inl resp \<Rightarrow> (resp, s)
           | Inr updatedUserObj \<Rightarrow>
               (case UpdateLocalUser GenPasswordHash username (asLocalUser updatedUserObj) s of
                  (None, _, s1) \<Rightarrow>
                    ((StatusOK,
                      BLocalUser \<lparr>lu_Username = ilu_Username updatedUserObj,
                                   lu_Disable = ilu_Disable updatedUserObj,
                                   lu_Role = RoleType_String
                                     (PrincipalRole (ilu_Principal updatedUserObj))\<rparr>), s1)
                | (Some err, _, s1) \<Rightarrow>
                    if err = ErrKeyNotFound then ((StatusNotFound, BNil), s1)
                    else if err = ErrIllegalOperation
                    then ((StatusBadRequest,
                           BSprintf ''Cannot update built-in user %q'' [AStr username]), s1)
                    else ((StatusInternalServerError, BError err), s1))))"

text \<open>How many writes and clears the store was asked for.\<close>

fun is_mutation :: "drvop \<Rightarrow> bool" where
  "is_mutation (OpWrite k v) = True"
| "is_mutation (OpClear k) = True"
| "is_mutation (OpRead k) = False"
| "is_mutation (OpReadAll k) = False"

definition mutations :: "store \<Rightarrow> nat" where
  "mutations s = length (filter is_mutation (oplog s))"

text \<open>The store has no failure in stock for the next call.\<close>

definition no_fault :: "store \<Rightarrow> bool" where
  "no_fault s = (case faults s of [] \<Rightarrow> True | f # fs \<Rightarrow> f = None)"

text \<open>
  The documents stored as the Principal of identifier \<open>pid\<close>: the entries of the store
  under that principal's key.
\<close>

definition principals_with_id :: "string \<Rightarrow> store \<Rightarrow> json list" where
  "principals_with_id pid s =
     map snd (filter (\<lambda>(k, v). k = GetPath RootPrincipals [pid]) (kv s))"

text \<open>
  The next call either acts on the content or answers with the store's not-found
  signal.
\<close>

definition not_found_or_none :: "store \<Rightarrow> bool" where
  "not_found_or_none s =
     (case faults s of [] \<Rightarrow> True | f # fs \<Rightarrow> f = None \<or> f = Some ErrKeyNotFound)"

text \<open>A stand-in for the hashing primitive in the examples: it never fails.\<close>

definition sharp_hash :: "string \<Rightarrow> string \<times> error option" where
  "sharp_hash password = (''#'' @ password, None)"

section \<open>The store, the keys and the documents: basic facts\<close>

lemma key_simps:
  "GetPath RootPrincipals [u] \<noteq> GetPath RootLdapMappings [g]"
  "GetPath RootLdapMappings [g] \<noteq> GetPath RootPrincipals [u]"
  "GetPath RootPrincipals [u] \<noteq> GetPath RootLocalUsers [n]"
  "GetPath RootLocalUsers [n] \<noteq> GetPath RootPrincipals [u]"
  "GetPath RootLdapMappings [g] \<noteq> GetPath RootLocalUsers [n]"
  "GetPath RootLocalUsers [n] \<noteq> GetPath RootLdapMappings [g]"
  "(GetPath RootPrincipals [u] = GetPath RootPrincipals [u']) = (u = u')"
  "(GetPath RootLdapMappings [g] = GetPath RootLdapMappings [g']) = (g = g')"
  "(GetPath RootLocalUsers [n] = GetPath RootLocalUsers [n']) = (n = n')"
  by (simp_all add: GetPath_def RootPrincipals_def RootLdapMappings_def RootLocalUsers_def)

lemma unmarshal_marshal_Principal: "unmarshal_Principal (marshal_Principal p) = Inr p"
  by (simp add: unmarshal_Principal_def marshal_Principal_def str_field_def num_field_def)

lemma unmarshal_marshal_LdapRoleMapping:
  "unmarshal_LdapRoleMapping (marshal_LdapRoleMapping m) = Inr m"
  by (simp add: unmarshal_LdapRoleMapping_def marshal_LdapRoleMapping_def str_field_def
      unmarshal_marshal_Principal)

lemma unmarshal_marshal_LocalUser:
  "unmarshal_LocalUser (marshal_LocalUser u) = Inr u"
  by (simp add: unmarshal_LocalUser_def marshal_LocalUser_def str_field_def bool_field_def
      bytes_field_def)

lemma issue_eff:
  "issue c s = (f, s') \<Longrightarrow> kv s' = kv s \<and> driver s' = driver s \<and> oplog s' = oplog s @ [c]"
  by (auto simp: issue_def split: list.splits)

lemma issue_no_fault:
  "no_fault s \<Longrightarrow> issue c s = (None, s\<lparr>faults := tl (faults s), oplog := oplog s @ [c]\<rparr>)"
  by (auto simp: issue_def no_fault_def split: list.splits)

lemma Read_eff:
  "Read k s = (r, s') \<Longrightarrow> kv s' = kv s \<and> driver s' = driver s \<and> oplog s' = oplog s @ [OpRead k]"
  by (auto simp: Read_def split: prod.splits option.splits dest: issue_eff)


lemma Read_no_fault:
  "no_fault s \<Longrightarrow>
   Read k s = ((case map_of (kv s) k of None \<Rightarrow> Inl ErrKeyNotFound | Some v \<Rightarrow> Inr v),
               s\<lparr>faults := tl (faults s), oplog := oplog s @ [OpRead k]\<rparr>)"
  by (simp add: Read_def issue_no_fault split: option.splits)

lemma Write_eff:
  "Write k v s = (r, s') \<Longrightarrow>
   driver s' = driver s \<and> oplog s' = oplog s @ [OpWrite k v]
   \<and> kv s' = (if r = None then AList.update k v (kv s) else kv s)"
  by (auto simp: Write_def split: prod.splits option.splits dest: issue_eff)

lemma ClearState_eff:
  "ClearState k s = (r, s') \<Longrightarrow>
   driver s' = driver s \<and> oplog s' = oplog s @ [OpClear k]
   \<and> kv s' = (if r = None then AList.delete k (kv s) else kv s)"
  by (auto simp: ClearState_def split: prod.splits option.splits dest: issue_eff)

lemma ReadAll_eff:
  "ReadAll d s = (r, s') \<Longrightarrow> kv s' = kv s \<and> driver s' = driver s \<and> oplog s' = oplog s @ [OpReadAll d]"
  by (auto simp: ReadAll_def split: prod.splits option.splits if_splits dest: issue_eff)

lemma addPrincipal_eff:
  "addPrincipal p s = (r, s') \<Longrightarrow>
   driver s' = driver s
   \<and> kv s' = (if r = None then AList.update (GetPath RootPrincipals [UUID p]) (marshal_Principal p) (kv s)
              else kv s)"
  by (auto simp: addPrincipal_def split: prod.splits sum.splits option.splits if_splits
      dest!: Read_eff Write_eff)

lemma deletePrincipal_eff:
  "deletePrincipal p s = (r, s') \<Longrightarrow>
   driver s' = driver s \<and> oplog s' = oplog s @ [OpClear (GetPath RootPrincipals [UUID p])]
   \<and> kv s' = (if r = None then AList.delete (GetPath RootPrincipals [UUID p]) (kv s) else kv s)"
  by (auto simp: deletePrincipal_def split: prod.splits option.splits dest!: ClearState_eff)

lemma getLdapMapping_eff:
  "getLdapMapping g s = (r, s') \<Longrightarrow>
   kv s' = kv s \<and> driver s' = driver s \<and> oplog s' = oplog s @ [OpRead (GetPath RootLdapMappings [g])]"
  by (auto simp: getLdapMapping_def split: prod.splits sum.splits if_splits dest!: Read_eff)


lemma AddLdapMapping_ok:
  assumes "AddLdapMapping m s = (None, s')"
  shows "kv s' = AList.update (GetPath RootLdapMappings [GroupName m]) (marshal_LdapRoleMapping m)
            (AList.update (GetPath RootPrincipals [UUID (Principal m)]) (marshal_Principal (Principal m)) (kv s))"
    and "driver s' = None"
  using assms
  by (auto simp: AddLdapMapping_def GetStateDriver_def
      split: prod.splits sum.splits option.splits if_splits
      dest!: getLdapMapping_eff addPrincipal_eff Write_eff)


lemma getLocalUser_eff:
  "getLocalUser n s = (r, s') \<Longrightarrow>
   kv s' = kv s \<and> driver s' = driver s \<and> oplog s' = oplog s @ [OpRead (GetPath RootLocalUsers [n])]"
  by (auto simp: getLocalUser_def split: prod.splits sum.splits if_splits dest!: Read_eff)

lemma AddLocalUser_ok:
  assumes "AddLocalUser gen u s = (None, u', s')"
  shows "u' = u\<lparr>Password := [],
                 PasswordHash := (if IsEmpty (PasswordHash u) then fst (gen (Password u)) else PasswordHash u)\<rparr>"
    and "kv s' = AList.update (GetPath RootLocalUsers [Username u]) (marshal_LocalUser u') (kv s)"
    and "oplog s' = oplog s @ [OpRead (GetPath RootLocalUsers [Username u]),
                               OpWrite (GetPath RootLocalUsers [Username u]) (marshal_LocalUser u')]"
    and "driver s' = None"
    and "IsEmpty (PasswordHash u) \<longrightarrow> snd (gen (Password u)) = None"
  using assms
  by (auto simp: AddLocalUser_def GetStateDriver_def Let_def
      split: prod.splits sum.splits option.splits if_splits
      dest!: Read_eff Write_eff)

lemma DeleteLocalUser_ok:
  assumes "DeleteLocalUser n s = (None, s')"
  shows "kv s' = AList.delete (GetPath RootLocalUsers [n]) (kv s)"
    and "driver s' = None"
  using assms
  by (auto simp: DeleteLocalUser_def GetStateDriver_def
      split: prod.splits sum.splits option.splits if_splits
      dest!: getLocalUser_eff ClearState_eff)

lemma AddLdapMapping_exists:
  assumes "driver s = None" and "no_fault s"
    and "map_of (kv s) (GetPath RootLdapMappings [GroupName m]) = Some (marshal_LdapRoleMapping m0)"
  shows "AddLdapMapping m s =
           (Some ErrKeyExists,
            s\<lparr>faults := tl (faults s),
              oplog := oplog s @ [OpRead (GetPath RootLdapMappings [GroupName m])]\<rparr>)"
  using assms
  by (simp add: AddLdapMapping_def GetStateDriver_def getLdapMapping_def Read_no_fault
      unmarshal_marshal_LdapRoleMapping)

lemma AddLocalUser_exists:
  assumes "driver s = None" and "no_fault s"
    and "map_of (kv s) (GetPath RootLocalUsers [Username u]) = Some v"
  shows "AddLocalUser gen u s =
           (Some ErrKeyExists, u,
            s\<lparr>faults := tl (faults s),
              oplog := oplog s @ [OpRead (GetPath RootLocalUsers [Username u])]\<rparr>)"
  using assms
  by (simp add: AddLocalUser_def GetStateDriver_def Read_no_fault Let_def)







lemma updateLdapMappingInfo_no_role:
  "IsEmpty (lm_Role updateReq) \<Longrightarrow>
   updateLdapMappingInfo updateReq actual s =
     ((StatusOK,
       BLdapMapping \<lparr>lm_GroupName = GroupName actual,
                      lm_Role = RoleType_String (PrincipalRole (Principal actual))\<rparr>), s)"
  by (simp add: updateLdapMappingInfo_def)

lemma mutations_after_read:
  "oplog s' = oplog s @ [OpRead k] \<Longrightarrow> mutations s' = mutations s"
  by (simp add: mutations_def)

lemmas run_defs =
  AddLdapMapping_def DeleteLdapMapping_def UpdateLdapMapping_def GetLdapMapping_def
  GetLdapMappings_def getLdapMapping_def addPrincipal_def deletePrincipal_def
  AddLocalUser_def DeleteLocalUser_def UpdateLocalUser_def GetLocalUser_def GetLocalUsers_def
  getLocalUser_def GetStateDriver_def Read_def Write_def ClearState_def ReadAll_def issue_def
  children_def GetPath_def RootPrincipals_def RootLdapMappings_def RootLocalUsers_def
  IsEmpty_def marshal_Principal_def marshal_LdapRoleMapping_def marshal_LocalUser_def
  unmarshal_Principal_def unmarshal_LdapRoleMapping_def unmarshal_LocalUser_def
  str_field_def bytes_field_def bool_field_def num_field_def principals_with_id_def
  RoleType_String_def Admin_def Ops_def Invalid_def Role_def Let_def sharp_hash_def

lemmas helper_defs =
  updateLdapMappingInfo_def updateLdapMappingHelper_def addLdapMappingHelper_def
  updateLocalUserInfo_def asLocalUser_def mutations_def
  StatusOK_def StatusCreated_def StatusNoContent_def StatusBadRequest_def StatusNotFound_def
  StatusInternalServerError_def

section \<open>Records and their principals\<close>




section \<open>Update of a local user\<close>

text \<open>
  C2 fails on the code. The user "bob" is stored disabled with the digest "#pw"; an
  update that names no role and no password and repeats \<^verbatim>\<open>disable: true\<close> writes back
  a record that is enabled and holds the digest of the empty password, and reports the
  role "admin": \<open>updateLocalUserInfo\<close> starts from zero values and copies neither the
  disable flag (when it is unchanged), nor the hash, nor the role from the current
  record.
\<close>

theorem update_without_password_or_change_overwrites:
  "updateLocalUserInfo sharp_hash ''bob''
      \<lparr>req_Username = [], req_Password = [], req_Disable = True, req_Role = []\<rparr>
      \<lparr>ilu_Username = ''bob'', ilu_Password = [], ilu_Disable = True,
       ilu_Principal = \<lparr>UUID = ''p2'', PrincipalRole = Ops\<rparr>, ilu_PrincipalID = ''p2'',
       ilu_PasswordHash = ''#pw''\<rparr>
      \<lparr>kv = [(''/ccn_proxy/local_users/bob'',
              JObj [(''username'', JStr ''bob''), (''disable'', JBool True),
                    (''password_hash'', JBytes ''#pw'')])],
       faults = [], oplog = [], driver = None\<rparr>
   = ((200, BLocalUser \<lparr>lu_Username = ''bob'', lu_Disable = False, lu_Role = ''admin''\<rparr>),
      \<lparr>kv = [(''/ccn_proxy/local_users/bob'',
              JObj [(''username'', JStr ''bob''), (''disable'', JBool False),
                    (''password_hash'', JBytes ''#'')])],
       faults = [],
       oplog = [OpRead ''/ccn_proxy/local_users/bob'',
                OpClear ''/ccn_proxy/local_users/bob'',
                OpRead ''/ccn_proxy/local_users/bob'',
                OpWrite ''/ccn_proxy/local_users/bob''
                  (JObj [(''username'', JStr ''bob''), (''disable'', JBool False),
                         (''password_hash'', JBytes ''#'')])],
       driver = None\<rparr>)"
  by (simp add: run_defs helper_defs)

section \<open>A failed write during add\<close>

text \<open>
  C3 (amended). During \<open>AddLdapMapping\<close>, when the mapping was read as absent, the
  Principal was created and the write of the mapping fails with the store error \<open>e\<close>:
  the compensating clear of the Principal's key is issued, once, as the last call;
  the Principal is gone when that clear succeeds and is left behind when it fails;
  the mapping's key is as before the call; and the error returned is the new error
  \<^verbatim>\<open>fmt.Errorf("Failed to write LDAP group mapping info. to data store: %#v", e)\<close>,
  an error of its own and none of the sentinels, with the store's error \<open>e\<close> formatted
  into it, the same whatever the compensating clear answered.
\<close>

theorem ldap_add_write_failure_compensates:
  "driver s = None
   \<and> getLdapMapping (GroupName m) s = (Inl ErrKeyNotFound, s1)
   \<and> addPrincipal (Principal m) s1 = (None, s2)
   \<and> Write (GetPath RootLdapMappings [GroupName m]) (marshal_LdapRoleMapping m) s2 = (Some e, s3)
   \<and> deletePrincipal (Principal m) s3 = (c, s4)
   \<longrightarrow>
     AddLdapMapping m s =
       (Some (Errorf ''Failed to write LDAP group mapping info. to data store: %#v'' [AErr e]), s4)
     \<and> oplog s4 = oplog s3 @ [OpClear (GetPath RootPrincipals [UUID (Principal m)])]
     \<and> map_of (kv s3) (GetPath RootPrincipals [UUID (Principal m)]) = Some (marshal_Principal (Principal m))
     \<and> map_of (kv s4) (GetPath RootPrincipals [UUID (Principal m)])
         = (if c = None then None else Some (marshal_Principal (Principal m)))
     \<and> map_of (kv s4) (GetPath RootLdapMappings [GroupName m])
         = map_of (kv s) (GetPath RootLdapMappings [GroupName m])
     \<and> carries (Errorf ''Failed to write LDAP group mapping info. to data store: %#v'' [AErr e]) e
     \<and> fst (AddLdapMapping m s)
           \<notin> {Some ErrKeyExists, Some ErrKeyNotFound, Some ErrIllegalOperation, Some ErrIllegalArgument}"
proof
  assume a: "driver s = None
   \<and> getLdapMapping (GroupName m) s = (Inl ErrKeyNotFound, s1)
   \<and> addPrincipal (Principal m) s1 = (None, s2)
   \<and> Write (GetPath RootLdapMappings [GroupName m]) (marshal_LdapRoleMapping m) s2 = (Some e, s3)
   \<and> deletePrincipal (Principal m) s3 = (c, s4)"
  then have d: "driver s = None"
    and g: "getLdapMapping (GroupName m) s = (Inl ErrKeyNotFound, s1)"
    and p: "addPrincipal (Principal m) s1 = (None, s2)"
    and w: "Write (GetPath RootLdapMappings [GroupName m]) (marshal_LdapRoleMapping m) s2 = (Some e, s3)"
    and x: "deletePrincipal (Principal m) s3 = (c, s4)"
    by simp_all
  have run: "AddLdapMapping m s =
       (Some (Errorf ''Failed to write LDAP group mapping info. to data store: %#v'' [AErr e]), s4)"
    by (simp add: AddLdapMapping_def GetStateDriver_def d g p w x)
  have k1: "kv s1 = kv s"
    using getLdapMapping_eff [OF g] by simp
  have k2: "kv s2 = AList.update (GetPath RootPrincipals [UUID (Principal m)])
                      (marshal_Principal (Principal m)) (kv s1)"
    using addPrincipal_eff [OF p] by simp
  have k3: "kv s3 = kv s2"
    using Write_eff [OF w] by simp
  have k4: "kv s4 = (if c = None then AList.delete (GetPath RootPrincipals [UUID (Principal m)]) (kv s3)
                     else kv s3)"
    using deletePrincipal_eff [OF x] by simp
  have log: "oplog s4 = oplog s3 @ [OpClear (GetPath RootPrincipals [UUID (Principal m)])]"
    using deletePrincipal_eff [OF x] by simp
  have st3: "map_of (kv s3) (GetPath RootPrincipals [UUID (Principal m)])
               = Some (marshal_Principal (Principal m))"
    by (simp add: k3 k2 update_conv')
  have st4: "map_of (kv s4) (GetPath RootPrincipals [UUID (Principal m)])
         = (if c = None then None else Some (marshal_Principal (Principal m)))"
    by (simp add: k4 k3 k2 update_conv' delete_conv')
  have st5: "map_of (kv s4) (GetPath RootLdapMappings [GroupName m])
               = map_of (kv s) (GetPath RootLdapMappings [GroupName m])"
    by (simp add: k4 k3 k2 k1 update_conv' delete_conv' key_simps)
  have car: "carries (Errorf ''Failed to write LDAP group mapping info. to data store: %#v'' [AErr e]) e"
    by simp
  have own: "fst (AddLdapMapping m s)
           \<notin> {Some ErrKeyExists, Some ErrKeyNotFound, Some ErrIllegalOperation, Some ErrIllegalArgument}"
    by (simp add: run)
  from run log st3 st4 st5 car own
  show "AddLdapMapping m s =
       (Some (Errorf ''Failed to write LDAP group mapping info. to data store: %#v'' [AErr e]), s4)
     \<and> oplog s4 = oplog s3 @ [OpClear (GetPath RootPrincipals [UUID (Principal m)])]
     \<and> map_of (kv s3) (GetPath RootPrincipals [UUID (Principal m)]) = Some (marshal_Principal (Principal m))
     \<and> map_of (kv s4) (GetPath RootPrincipals [UUID (Principal m)])
         = (if c = None then None else Some (marshal_Principal (Principal m)))
     \<and> map_of (kv s4) (GetPath RootLdapMappings [GroupName m])
         = map_of (kv s) (GetPath RootLdapMappings [GroupName m])
     \<and> carries (Errorf ''Failed to write LDAP group mapping info. to data store: %#v'' [AErr e]) e
     \<and> fst (AddLdapMapping m s)
           \<notin> {Some ErrKeyExists, Some ErrKeyNotFound, Some ErrIllegalOperation, Some ErrIllegalArgument}"
    by simp
qed

theorem ldap_add_write_failure_compensates_witness:
  "AddLdapMapping
     \<lparr>GroupName = ''eng'', Principal = \<lparr>UUID = ''p1'', PrincipalRole = Ops\<rparr>, PrincipalID = ''p1''\<rparr>
     \<lparr>kv = [],
      faults = [None, None, None, Some (ErrorString ''disk full''), Some (ErrorString ''gone away'')],
      oplog = [], driver = None\<rparr>
   = (Some (Errorf ''Failed to write LDAP group mapping info. to data store: %#v''
              [AErr (ErrorString ''disk full'')]),
      \<lparr>kv = [(''/ccn_proxy/principals/p1'', JObj [(''uuid'', JStr ''p1''), (''roletype'', JNum 1)])],
       faults = [],
       oplog = [OpRead ''/ccn_proxy/ldap_mappings/eng'',
                OpRead ''/ccn_proxy/principals/p1'',
                OpWrite ''/ccn_proxy/principals/p1''
                  (JObj [(''uuid'', JStr ''p1''), (''roletype'', JNum 1)]),
                OpWrite ''/ccn_proxy/ldap_mappings/eng''
                  (JObj [(''GroupName'', JStr ''eng''),
                         (''Principal'', JObj [(''uuid'', JStr ''p1''), (''roletype'', JNum 1)]),
                         (''PrincipalID'', JStr ''p1'')]),
                OpClear ''/ccn_proxy/principals/p1''],
       driver = None\<rparr>)"
proof -
  let ?m = "\<lparr>GroupName = ''eng'', Principal = \<lparr>UUID = ''p1'', PrincipalRole = Ops\<rparr>, PrincipalID = ''p1''\<rparr>"
  let ?s = "\<lparr>kv = [],
      faults = [None, None, None, Some (ErrorString ''disk full''), Some (ErrorString ''gone away'')],
      oplog = [], driver = None\<rparr>"
  let ?s1 = "snd (getLdapMapping (GroupName ?m) ?s)"
  let ?s2 = "snd (addPrincipal (Principal ?m) ?s1)"
  let ?s3 = "snd (Write (GetPath RootLdapMappings [GroupName ?m]) (marshal_LdapRoleMapping ?m) ?s2)"
  let ?c = "fst (deletePrincipal (Principal ?m) ?s3)"
  let ?s4 = "snd (deletePrincipal (Principal ?m) ?s3)"
  have d: "driver ?s = None"
    by simp
  have g: "getLdapMapping (GroupName ?m) ?s = (Inl ErrKeyNotFound, ?s1)"
    by (simp add: run_defs)
  have p: "addPrincipal (Principal ?m) ?s1 = (None, ?s2)"
    by (simp add: run_defs)
  have w: "Write (GetPath RootLdapMappings [GroupName ?m]) (marshal_LdapRoleMapping ?m) ?s2
             = (Some (ErrorString ''disk full''), ?s3)"
    by (simp add: run_defs)
  have x: "deletePrincipal (Principal ?m) ?s3 = (?c, ?s4)"
    by simp
  from ldap_add_write_failure_compensates
         [where m = ?m and s = ?s and ?s1.0 = ?s1 and ?s2.0 = ?s2 and ?s3.0 = ?s3
            and ?s4.0 = ?s4 and c = ?c and e = "ErrorString ''disk full''"]
       d g p w x
  have "AddLdapMapping ?m ?s =
       (Some (Errorf ''Failed to write LDAP group mapping info. to data store: %#v''
                [AErr (ErrorString ''disk full'')]), ?s4)"
    by blast
  moreover have "?s4 = \<lparr>kv = [(''/ccn_proxy/principals/p1'', JObj [(''uuid'', JStr ''p1''), (''roletype'', JNum 1)])],
       faults = [],
       oplog = [OpRead ''/ccn_proxy/ldap_mappings/eng'',
                OpRead ''/ccn_proxy/principals/p1'',
                OpWrite ''/ccn_proxy/principals/p1''
                  (JObj [(''uuid'', JStr ''p1''), (''roletype'', JNum 1)]),
                OpWrite ''/ccn_proxy/ldap_mappings/eng''
                  (JObj [(''GroupName'', JStr ''eng''),
                         (''Principal'', JObj [(''uuid'', JStr ''p1''), (''roletype'', JNum 1)]),
                         (''PrincipalID'', JStr ''p1'')]),
                OpClear ''/ccn_proxy/principals/p1''],
       driver = None\<rparr>"
    by (simp add: run_defs)
  ultimately show ?thesis
    by simp
qed

text \<open>
  C3 as stated fails: when the write of the mapping fails with the store's error
  "disk full", the error \<open>AddLdapMapping\<close> returns has that very error formatted into
  its message with \<^verbatim>\<open>%#v\<close>.
\<close>

theorem ldap_add_error_carries_store_error:
  "fst (AddLdapMapping
          \<lparr>GroupName = ''eng'', Principal = \<lparr>UUID = ''p1'', PrincipalRole = Ops\<rparr>, PrincipalID = ''p1''\<rparr>
          \<lparr>kv = [], faults = [None, None, None, Some (ErrorString ''disk full'')],
           oplog = [], driver = None\<rparr>)
     = Some (Errorf ''Failed to write LDAP group mapping info. to data store: %#v''
               [AErr (ErrorString ''disk full'')])
   \<and> (\<exists>r. fst (AddLdapMapping
          \<lparr>GroupName = ''eng'', Principal = \<lparr>UUID = ''p1'', PrincipalRole = Ops\<rparr>, PrincipalID = ''p1''\<rparr>
          \<lparr>kv = [], faults = [None, None, None, Some (ErrorString ''disk full'')],
           oplog = [], driver = None\<rparr>) = Some r
        \<and> carries r (ErrorString ''disk full''))"
  by (simp add: run_defs)

section \<open>Updates that change nothing\<close>

text \<open>
  C4 (amended). For the LDAP-mapping store, an update that names no role returns the
  current view of the record with status OK and leaves the store as it was:
  \<open>updateLdapMappingInfo\<close> makes no call on the driver, and the whole helper, which
  first reads the mapping, changes neither the content nor the count of writes and
  clears.
\<close>

theorem ldap_update_without_role_writes_nothing:
  "IsEmpty (lm_Role updateReq) \<longrightarrow>
     updateLdapMappingInfo updateReq actual s =
       ((StatusOK,
         BLdapMapping \<lparr>lm_GroupName = GroupName actual,
                        lm_Role = RoleType_String (PrincipalRole (Principal actual))\<rparr>), s)
     \<and> kv (snd (updateLdapMappingHelper g updateReq s)) = kv s
     \<and> mutations (snd (updateLdapMappingHelper g updateReq s)) = mutations s"
proof
  assume e: "IsEmpty (lm_Role updateReq)"
  obtain r s1 where get: "getLdapMapping g s = (r, s1)"
    by (cases "getLdapMapping g s")
  from getLdapMapping_eff [OF get] have k: "kv s1 = kv s" and m: "mutations s1 = mutations s"
    by (simp_all add: mutations_after_read)
  have "kv (snd (updateLdapMappingHelper g updateReq s)) = kv s
        \<and> mutations (snd (updateLdapMappingHelper g updateReq s)) = mutations s"
    using get k m
    by (cases r)
       (simp_all add: updateLdapMappingHelper_def GetLdapMapping_def GetStateDriver_def
          updateLdapMappingInfo_no_role [OF e] split: option.splits)
  with updateLdapMappingInfo_no_role [OF e]
  show "updateLdapMappingInfo updateReq actual s =
       ((StatusOK,
         BLdapMapping \<lparr>lm_GroupName = GroupName actual,
                        lm_Role = RoleType_String (PrincipalRole (Principal actual))\<rparr>), s)
     \<and> kv (snd (updateLdapMappingHelper g updateReq s)) = kv s
     \<and> mutations (snd (updateLdapMappingHelper g updateReq s)) = mutations s"
    by simp
qed

theorem ldap_update_without_role_writes_nothing_witness:
  "IsEmpty (lm_Role \<lparr>lm_GroupName = [], lm_Role = []\<rparr>)
   \<and> fst (updateLdapMappingHelper ''eng'' \<lparr>lm_GroupName = [], lm_Role = []\<rparr>
        \<lparr>kv = [(''/ccn_proxy/principals/p1'', JObj [(''uuid'', JStr ''p1''), (''roletype'', JNum 1)]),
               (''/ccn_proxy/ldap_mappings/eng'',
                JObj [(''GroupName'', JStr ''eng''),
                      (''Principal'', JObj [(''uuid'', JStr ''p1''), (''roletype'', JNum 1)]),
                      (''PrincipalID'', JStr ''p1'')])],
         faults = [], oplog = [], driver = None\<rparr>)
      = (200, BLdapMapping \<lparr>lm_GroupName = ''eng'', lm_Role = ''ops''\<rparr>)
   \<and> mutations (snd (updateLdapMappingHelper ''eng'' \<lparr>lm_GroupName = [], lm_Role = []\<rparr>
        \<lparr>kv = [(''/ccn_proxy/principals/p1'', JObj [(''uuid'', JStr ''p1''), (''roletype'', JNum 1)]),
               (''/ccn_proxy/ldap_mappings/eng'',
                JObj [(''GroupName'', JStr ''eng''),
                      (''Principal'', JObj [(''uuid'', JStr ''p1''), (''roletype'', JNum 1)]),
                      (''PrincipalID'', JStr ''p1'')])],
         faults = [], oplog = [], driver = None\<rparr>)) = 0"
proof -
  let ?req = "\<lparr>lm_GroupName = [], lm_Role = []\<rparr>"
  let ?s = "\<lparr>kv = [(''/ccn_proxy/principals/p1'', JObj [(''uuid'', JStr ''p1''), (''roletype'', JNum 1)]),
               (''/ccn_proxy/ldap_mappings/eng'',
                JObj [(''GroupName'', JStr ''eng''),
                      (''Principal'', JObj [(''uuid'', JStr ''p1''), (''roletype'', JNum 1)]),
                      (''PrincipalID'', JStr ''p1'')])],
         faults = [], oplog = [], driver = None\<rparr>"
  have e: "IsEmpty (lm_Role ?req)"
    by (simp add: IsEmpty_def)
  from ldap_update_without_role_writes_nothing [of ?req _ _ "''eng''"] e
  have "mutations (snd (updateLdapMappingHelper ''eng'' ?req ?s)) = mutations ?s"
    by blast
  then have m: "mutations (snd (updateLdapMappingHelper ''eng'' ?req ?s)) = 0"
    by (simp add: mutations_def)
  have v: "fst (updateLdapMappingHelper ''eng'' ?req ?s)
             = (200, BLdapMapping \<lparr>lm_GroupName = ''eng'', lm_Role = ''ops''\<rparr>)"
    by (simp add: run_defs helper_defs)
  from e v m show ?thesis
    by simp
qed

text \<open>
  C4 as stated fails. An LDAP update that names the role the mapping already has goes
  through delete and add: two clears and two writes. A local-user update that changes
  nothing (no role, no password, the same disable flag) clears and rewrites the user:
  two mutations.
\<close>

theorem update_with_nothing_changed_writes:
  "updateLdapMappingInfo \<lparr>lm_GroupName = [], lm_Role = ''ops''\<rparr>
      \<lparr>GroupName = ''eng'', Principal = \<lparr>UUID = ''p1'', PrincipalRole = Ops\<rparr>, PrincipalID = ''p1''\<rparr>
      \<lparr>kv = [(''/ccn_proxy/principals/p1'', JObj [(''uuid'', JStr ''p1''), (''roletype'', JNum 1)]),
             (''/ccn_proxy/ldap_mappings/eng'',
              JObj [(''GroupName'', JStr ''eng''),
                    (''Principal'', JObj [(''uuid'', JStr ''p1''), (''roletype'', JNum 1)]),
                    (''PrincipalID'', JStr ''p1'')])],
       faults = [], oplog = [], driver = None\<rparr>
   = ((200, BLdapMapping \<lparr>lm_GroupName = ''eng'', lm_Role = ''ops''\<rparr>),
      \<lparr>kv = [(''/ccn_proxy/principals/p1'', JObj [(''uuid'', JStr ''p1''), (''roletype'', JNum 1)]),
             (''/ccn_proxy/ldap_mappings/eng'',
              JObj [(''GroupName'', JStr ''eng''),
                    (''Principal'', JObj [(''uuid'', JStr ''p1''), (''roletype'', JNum 1)]),
                    (''PrincipalID'', JStr ''p1'')])],
       faults = [],
       oplog = [OpRead ''/ccn_proxy/ldap_mappings/eng'',
                OpClear ''/ccn_proxy/principals/p1'',
                OpClear ''/ccn_proxy/ldap_mappings/eng'',
                OpRead ''/ccn_proxy/ldap_mappings/eng'',
                OpRead ''/ccn_proxy/principals/p1'',
                OpWrite ''/ccn_proxy/principals/p1''
                  (JObj [(''uuid'', JStr ''p1''), (''roletype'', JNum 1)]),
                OpWrite ''/ccn_proxy/ldap_mappings/eng''
                  (JObj [(''GroupName'', JStr ''eng''),
                         (''Principal'', JObj [(''uuid'', JStr ''p1''), (''roletype'', JNum 1)]),
                         (''PrincipalID'', JStr ''p1'')])],
       driver = None\<rparr>)
   \<and> mutations (snd (updateLocalUserInfo sharp_hash ''bob''
        \<lparr>req_Username = [], req_Password = [], req_Disable = False, req_Role = []\<rparr>
        \<lparr>ilu_Username = ''bob'', ilu_Password = [], ilu_Disable = False,
         ilu_Principal = \<lparr>UUID = ''p2'', PrincipalRole = Ops\<rparr>, ilu_PrincipalID = ''p2'',
         ilu_PasswordHash = ''#pw''\<rparr>
        \<lparr>kv = [(''/ccn_proxy/local_users/bob'',
                JObj [(''username'', JStr ''bob''), (''disable'', JBool False),
                      (''password_hash'', JBytes ''#pw'')])],
         faults = [], oplog = [], driver = None\<rparr>)) = 2"
  by (simp add: run_defs helper_defs)

section \<open>Listing an empty namespace\<close>

text \<open>
  C5. For both stores, with a driver at hand and no record under the namespace,
  get_all returns the empty collection and no error, whether the store lists nothing
  or answers with its not-found signal; the content of the store is untouched.
\<close>

theorem get_all_empty_namespace:
  "(driver s = None \<and> not_found_or_none s \<and> children (GetPath RootLdapMappings []) (kv s) = [] \<longrightarrow>
      fst (GetLdapMappings s) = Inr [] \<and> kv (snd (GetLdapMappings s)) = kv s)
   \<and> (driver s = None \<and> not_found_or_none s \<and> children (GetPath RootLocalUsers []) (kv s) = [] \<longrightarrow>
      fst (GetLocalUsers s) = Inr [] \<and> kv (snd (GetLocalUsers s)) = kv s)"
  by (auto simp: GetLdapMappings_def GetLocalUsers_def GetStateDriver_def ReadAll_def issue_def
      not_found_or_none_def split: list.splits option.splits)

theorem get_all_empty_namespace_witness:
  "fst (GetLdapMappings \<lparr>kv = [], faults = [Some ErrKeyNotFound], oplog = [], driver = None\<rparr>) = Inr []
   \<and> fst (GetLocalUsers
        \<lparr>kv = [(''/ccn_proxy/principals/p1'', JObj [(''uuid'', JStr ''p1''), (''roletype'', JNum 1)])],
         faults = [], oplog = [], driver = None\<rparr>) = Inr []"
  using get_all_empty_namespace [of "\<lparr>kv = [], faults = [Some ErrKeyNotFound], oplog = [], driver = None\<rparr>"]
    get_all_empty_namespace [of
      "\<lparr>kv = [(''/ccn_proxy/principals/p1'', JObj [(''uuid'', JStr ''p1''), (''roletype'', JNum 1)])],
        faults = [], oplog = [], driver = None\<rparr>"]
  by (simp add: not_found_or_none_def children_def GetPath_def RootLdapMappings_def RootLocalUsers_def)

section \<open>Adding a key twice\<close>

text \<open>
  C6. After a successful add, a second add with the same key (group name or username)
  on a store that answers the next call returns \<open>ErrKeyExists\<close>; the call only reads
  the key (the store after it differs in the consumed outcome and the logged read),
  so the record written by the first add is still the one stored.
\<close>

theorem second_add_already_exists:
  "(AddLdapMapping m s = (None, s1) \<and> GroupName m' = GroupName m \<and> no_fault s1 \<longrightarrow>
      AddLdapMapping m' s1 =
        (Some ErrKeyExists,
         s1\<lparr>faults := tl (faults s1),
            oplog := oplog s1 @ [OpRead (GetPath RootLdapMappings [GroupName m])]\<rparr>)
      \<and> map_of (kv (snd (AddLdapMapping m' s1))) (GetPath RootLdapMappings [GroupName m])
          = Some (marshal_LdapRoleMapping m))
   \<and> (AddLocalUser gen u s = (None, u1, s1) \<and> Username u' = Username u \<and> no_fault s1 \<longrightarrow>
      AddLocalUser gen u' s1 =
        (Some ErrKeyExists, u',
         s1\<lparr>faults := tl (faults s1),
            oplog := oplog s1 @ [OpRead (GetPath RootLocalUsers [Username u])]\<rparr>)
      \<and> map_of (kv (snd (snd (AddLocalUser gen u' s1)))) (GetPath RootLocalUsers [Username u])
          = Some (marshal_LocalUser u1))"
proof (intro conjI impI)
  assume a: "AddLdapMapping m s = (None, s1) \<and> GroupName m' = GroupName m \<and> no_fault s1"
  then have a1: "AddLdapMapping m s = (None, s1)" and a2: "GroupName m' = GroupName m"
    and a3: "no_fault s1"
    by simp_all
  have st: "map_of (kv s1) (GetPath RootLdapMappings [GroupName m']) = Some (marshal_LdapRoleMapping m)"
    using AddLdapMapping_ok(1) [OF a1] a2 by (simp add: update_conv')
  have again: "AddLdapMapping m' s1 =
        (Some ErrKeyExists,
         s1\<lparr>faults := tl (faults s1),
            oplog := oplog s1 @ [OpRead (GetPath RootLdapMappings [GroupName m'])]\<rparr>)"
    by (rule AddLdapMapping_exists [OF AddLdapMapping_ok(2) [OF a1] a3 st])
  with a2 show "AddLdapMapping m' s1 =
        (Some ErrKeyExists,
         s1\<lparr>faults := tl (faults s1),
            oplog := oplog s1 @ [OpRead (GetPath RootLdapMappings [GroupName m])]\<rparr>)"
    by simp
  from again st a2
  show "map_of (kv (snd (AddLdapMapping m' s1))) (GetPath RootLdapMappings [GroupName m])
          = Some (marshal_LdapRoleMapping m)"
    by simp
next
  assume a: "AddLocalUser gen u s = (None, u1, s1) \<and> Username u' = Username u \<and> no_fault s1"
  then have a1: "AddLocalUser gen u s = (None, u1, s1)" and a2: "Username u' = Username u"
    and a3: "no_fault s1"
    by simp_all
  have st: "map_of (kv s1) (GetPath RootLocalUsers [Username u']) = Some (marshal_LocalUser u1)"
    using AddLocalUser_ok(2) [OF a1] a2 by (simp add: update_conv')
  have again: "AddLocalUser gen u' s1 =
        (Some ErrKeyExists, u',
         s1\<lparr>faults := tl (faults s1),
            oplog := oplog s1 @ [OpRead (GetPath RootLocalUsers [Username u'])]\<rparr>)"
    by (rule AddLocalUser_exists [OF AddLocalUser_ok(4) [OF a1] a3 st])
  with a2 show "AddLocalUser gen u' s1 =
        (Some ErrKeyExists, u',
         s1\<lparr>faults := tl (faults s1),
            oplog := oplog s1 @ [OpRead (GetPath RootLocalUsers [Username u])]\<rparr>)"
    by simp
  from again st a2
  show "map_of (kv (snd (snd (AddLocalUser gen u' s1)))) (GetPath RootLocalUsers [Username u])
          = Some (marshal_LocalUser u1)"
    by simp
qed

theorem second_add_already_exists_witness:
  "fst (AddLdapMapping
          \<lparr>GroupName = ''eng'', Principal = \<lparr>UUID = ''p1'', PrincipalRole = Ops\<rparr>, PrincipalID = ''p1''\<rparr>
          \<lparr>kv = [], faults = [], oplog = [], driver = None\<rparr>) = None
   \<and> fst (AddLdapMapping
          \<lparr>GroupName = ''eng'', Principal = \<lparr>UUID = ''p2'', PrincipalRole = Admin\<rparr>, PrincipalID = ''p2''\<rparr>
          (snd (AddLdapMapping
            \<lparr>GroupName = ''eng'', Principal = \<lparr>UUID = ''p1'', PrincipalRole = Ops\<rparr>, PrincipalID = ''p1''\<rparr>
            \<lparr>kv = [], faults = [], oplog = [], driver = None\<rparr>))) = Some ErrKeyExists
   \<and> kv (snd (AddLdapMapping
          \<lparr>GroupName = ''eng'', Principal = \<lparr>UUID = ''p2'', PrincipalRole = Admin\<rparr>, PrincipalID = ''p2''\<rparr>
          (snd (AddLdapMapping
            \<lparr>GroupName = ''eng'', Principal = \<lparr>UUID = ''p1'', PrincipalRole = Ops\<rparr>, PrincipalID = ''p1''\<rparr>
            \<lparr>kv = [], faults = [], oplog = [], driver = None\<rparr>))))
     = kv (snd (AddLdapMapping
            \<lparr>GroupName = ''eng'', Principal = \<lparr>UUID = ''p1'', PrincipalRole = Ops\<rparr>, PrincipalID = ''p1''\<rparr>
            \<lparr>kv = [], faults = [], oplog = [], driver = None\<rparr>))
   \<and> fst (AddLocalUser sharp_hash
          \<lparr>Username = ''bob'', Password = ''pw'', Disable = False, PasswordHash = []\<rparr>
          \<lparr>kv = [], faults = [], oplog = [], driver = None\<rparr>) = None
   \<and> fst (AddLocalUser sharp_hash
          \<lparr>Username = ''bob'', Password = ''other'', Disable = True, PasswordHash = []\<rparr>
          (snd (snd (AddLocalUser sharp_hash
            \<lparr>Username = ''bob'', Password = ''pw'', Disable = False, PasswordHash = []\<rparr>
            \<lparr>kv = [], faults = [], oplog = [], driver = None\<rparr>)))) = Some ErrKeyExists
   \<and> kv (snd (snd (AddLocalUser sharp_hash
          \<lparr>Username = ''bob'', Password = ''other'', Disable = True, PasswordHash = []\<rparr>
          (snd (snd (AddLocalUser sharp_hash
            \<lparr>Username = ''bob'', Password = ''pw'', Disable = False, PasswordHash = []\<rparr>
            \<lparr>kv = [], faults = [], oplog = [], driver = None\<rparr>))))))
     = kv (snd (snd (AddLocalUser sharp_hash
            \<lparr>Username = ''bob'', Password = ''pw'', Disable = False, PasswordHash = []\<rparr>
            \<lparr>kv = [], faults = [], oplog = [], driver = None\<rparr>)))"
proof -
  let ?m = "\<lparr>GroupName = ''eng'', Principal = \<lparr>UUID = ''p1'', PrincipalRole = Ops\<rparr>, PrincipalID = ''p1''\<rparr>"
  let ?m' = "\<lparr>GroupName = ''eng'', Principal = \<lparr>UUID = ''p2'', PrincipalRole = Admin\<rparr>, PrincipalID = ''p2''\<rparr>"
  let ?gen = sharp_hash
  let ?u = "\<lparr>Username = ''bob'', Password = ''pw'', Disable = False, PasswordHash = []\<rparr>"
  let ?u' = "\<lparr>Username = ''bob'', Password = ''other'', Disable = True, PasswordHash = []\<rparr>"
  let ?s0 = "\<lparr>kv = [], faults = [], oplog = [], driver = None\<rparr>"
  let ?s1 = "snd (AddLdapMapping ?m ?s0)"
  let ?t1 = "snd (snd (AddLocalUser ?gen ?u ?s0))"
  have add: "fst (AddLdapMapping ?m ?s0) = None"
    by (simp add: run_defs)
  then have add': "AddLdapMapping ?m ?s0 = (None, ?s1)"
    by (metis prod.collapse)
  have nf: "no_fault ?s1"
    by (simp add: run_defs no_fault_def)
  have ladd: "fst (AddLocalUser ?gen ?u ?s0) = None"
    by (simp add: run_defs)
  then have ladd': "AddLocalUser ?gen ?u ?s0 = (None, fst (snd (AddLocalUser ?gen ?u ?s0)), ?t1)"
    by (metis prod.collapse)
  have lnf: "no_fault ?t1"
    by (simp add: run_defs no_fault_def)
  from second_add_already_exists [where m = ?m and m' = ?m' and s = ?s0 and ?s1.0 = ?s1] add' nf
  have again: "AddLdapMapping ?m' ?s1 =
        (Some ErrKeyExists,
         ?s1\<lparr>faults := tl (faults ?s1),
            oplog := oplog ?s1 @ [OpRead (GetPath RootLdapMappings [GroupName ?m])]\<rparr>)"
    by simp
  from second_add_already_exists [where gen = ?gen and u = ?u and u' = ?u' and s = ?s0 and ?s1.0 = ?t1
      and ?u1.0 = "fst (snd (AddLocalUser ?gen ?u ?s0))"] ladd' lnf
  have lagain: "AddLocalUser ?gen ?u' ?t1 =
        (Some ErrKeyExists, ?u',
         ?t1\<lparr>faults := tl (faults ?t1),
            oplog := oplog ?t1 @ [OpRead (GetPath RootLocalUsers [Username ?u])]\<rparr>)"
    by simp
  show ?thesis
    using add ladd again lagain by simp
qed

section \<open>The built-in users\<close>

text \<open>
  C7. For the two built-in usernames, "admin" and "ops", delete and update return
  \<open>ErrIllegalOperation\<close> and leave the store (and the caller's user) exactly as they
  were, so reading the built-in user afterwards gives what it gave before. On the
  store that \<open>AddDefaultUsers\<close> fills, the built-in users are read back unchanged
  after a refused delete and a refused update.
\<close>

theorem builtin_users_immutable:
  "DeleteLocalUser ''admin'' s = (Some ErrIllegalOperation, s)
   \<and> DeleteLocalUser ''ops'' s = (Some ErrIllegalOperation, s)
   \<and> UpdateLocalUser gen ''admin'' u s = (Some ErrIllegalOperation, u, s)
   \<and> UpdateLocalUser gen ''ops'' u s = (Some ErrIllegalOperation, u, s)
   \<and> GetLocalUser ''admin'' (snd (DeleteLocalUser ''admin'' s)) = GetLocalUser ''admin'' s
   \<and> GetLocalUser ''ops'' (snd (DeleteLocalUser ''ops'' s)) = GetLocalUser ''ops'' s
   \<and> GetLocalUser ''admin'' (snd (snd (UpdateLocalUser gen ''admin'' u s))) = GetLocalUser ''admin'' s
   \<and> GetLocalUser ''ops'' (snd (snd (UpdateLocalUser gen ''ops'' u s))) = GetLocalUser ''ops'' s
   \<and> fst (GetLocalUser ''admin''
          (snd (DeleteLocalUser ''admin''
             (snd (AddDefaultUsers sharp_hash \<lparr>kv = [], faults = [], oplog = [], driver = None\<rparr>)))))
       = Inr \<lparr>Username = ''admin'', Password = [], Disable = False, PasswordHash = ''#admin''\<rparr>
   \<and> fst (GetLocalUser ''ops''
          (snd (snd (UpdateLocalUser sharp_hash ''ops''
             \<lparr>Username = ''ops'', Password = ''new'', Disable = True, PasswordHash = []\<rparr>
             (snd (AddDefaultUsers sharp_hash \<lparr>kv = [], faults = [], oplog = [], driver = None\<rparr>))))))
       = Inr \<lparr>Username = ''ops'', Password = [], Disable = False, PasswordHash = ''#ops''\<rparr>"
proof -
  have refuse: "\<And>s. DeleteLocalUser ''admin'' s = (Some ErrIllegalOperation, s)"
    "\<And>s. DeleteLocalUser ''ops'' s = (Some ErrIllegalOperation, s)"
    "\<And>s u. UpdateLocalUser gen ''admin'' u s = (Some ErrIllegalOperation, u, s)"
    "\<And>s u. UpdateLocalUser gen ''ops'' u s = (Some ErrIllegalOperation, u, s)"
    "\<And>s u. UpdateLocalUser sharp_hash ''ops'' u s = (Some ErrIllegalOperation, u, s)"
    by (simp_all add: DeleteLocalUser_def UpdateLocalUser_def RoleType_String_def Admin_def Ops_def)
  have boot: "fst (GetLocalUser ''admin''
          (snd (AddDefaultUsers sharp_hash \<lparr>kv = [], faults = [], oplog = [], driver = None\<rparr>)))
       = Inr \<lparr>Username = ''admin'', Password = [], Disable = False, PasswordHash = ''#admin''\<rparr>"
    "fst (GetLocalUser ''ops''
          (snd (AddDefaultUsers sharp_hash \<lparr>kv = [], faults = [], oplog = [], driver = None\<rparr>)))
       = Inr \<lparr>Username = ''ops'', Password = [], Disable = False, PasswordHash = ''#ops''\<rparr>"
    by (simp_all add: AddDefaultUsers_def run_defs)
  show ?thesis
    by (simp add: refuse boot)
qed

section \<open>What a local-user add persists\<close>

text \<open>
  C8. A successful \<open>AddLocalUser\<close> leaves the password of the user empty and its hash
  set (computed by the primitive when the caller gave none) before the one write it
  makes; the document written and stored has the members username, disable and (when
  non-empty) password_hash, and no password member.
\<close>

theorem local_add_persists_digest_only:
  "AddLocalUser gen user s = (None, user', s') \<longrightarrow>
     Password user' = []
     \<and> PasswordHash user' =
         (if IsEmpty (PasswordHash user) then fst (gen (Password user)) else PasswordHash user)
     \<and> oplog s' = oplog s @ [OpRead (GetPath RootLocalUsers [Username user]),
                              OpWrite (GetPath RootLocalUsers [Username user]) (marshal_LocalUser user')]
     \<and> map_of (kv s') (GetPath RootLocalUsers [Username user]) = Some (marshal_LocalUser user')
     \<and> marshal_LocalUser user' =
         JObj ([(''username'', JStr (Username user)), (''disable'', JBool (Disable user))]
               @ (if PasswordHash user' = [] then []
                  else [(''password_hash'', JBytes (PasswordHash user'))]))"
proof
  assume a: "AddLocalUser gen user s = (None, user', s')"
  note ok = AddLocalUser_ok [OF a]
  have "Password user' = []"
    by (simp add: ok(1))
  moreover have "PasswordHash user' =
         (if IsEmpty (PasswordHash user) then fst (gen (Password user)) else PasswordHash user)"
    by (simp add: ok(1))
  moreover note ok(3)
  moreover have "map_of (kv s') (GetPath RootLocalUsers [Username user]) = Some (marshal_LocalUser user')"
    by (simp add: ok(2) update_conv')
  moreover have "marshal_LocalUser user' =
         JObj ([(''username'', JStr (Username user)), (''disable'', JBool (Disable user))]
               @ (if PasswordHash user' = [] then []
                  else [(''password_hash'', JBytes (PasswordHash user'))]))"
    by (simp add: ok(1) marshal_LocalUser_def)
  ultimately show "Password user' = []
     \<and> PasswordHash user' =
         (if IsEmpty (PasswordHash user) then fst (gen (Password user)) else PasswordHash user)
     \<and> oplog s' = oplog s @ [OpRead (GetPath RootLocalUsers [Username user]),
                              OpWrite (GetPath RootLocalUsers [Username user]) (marshal_LocalUser user')]
     \<and> map_of (kv s') (GetPath RootLocalUsers [Username user]) = Some (marshal_LocalUser user')
     \<and> marshal_LocalUser user' =
         JObj ([(''username'', JStr (Username user)), (''disable'', JBool (Disable user))]
               @ (if PasswordHash user' = [] then []
                  else [(''password_hash'', JBytes (PasswordHash user'))]))"
    by blast
qed

theorem local_add_persists_digest_only_witness:
  "AddLocalUser sharp_hash
      \<lparr>Username = ''bob'', Password = ''pw'', Disable = True, PasswordHash = []\<rparr>
      \<lparr>kv = [], faults = [], oplog = [], driver = None\<rparr>
   = (None,
      \<lparr>Username = ''bob'', Password = [], Disable = True, PasswordHash = ''#pw''\<rparr>,
      \<lparr>kv = [(''/ccn_proxy/local_users/bob'',
              JObj [(''username'', JStr ''bob''), (''disable'', JBool True),
                    (''password_hash'', JBytes ''#pw'')])],
       faults = [],
       oplog = [OpRead ''/ccn_proxy/local_users/bob'',
                OpWrite ''/ccn_proxy/local_users/bob''
                  (JObj [(''username'', JStr ''bob''), (''disable'', JBool True),
                         (''password_hash'', JBytes ''#pw'')])],
       driver = None\<rparr>)
   \<and> map_of (kv (snd (snd (AddLocalUser sharp_hash
      \<lparr>Username = ''bob'', Password = ''pw'', Disable = True, PasswordHash = []\<rparr>
      \<lparr>kv = [], faults = [], oplog = [], driver = None\<rparr>)))) ''/ccn_proxy/local_users/bob''
     = Some (JObj [(''username'', JStr ''bob''), (''disable'', JBool True),
                   (''password_hash'', JBytes ''#pw'')])"
proof -
  let ?gen = sharp_hash
  let ?u = "\<lparr>Username = ''bob'', Password = ''pw'', Disable = True, PasswordHash = []\<rparr>"
  let ?s0 = "\<lparr>kv = [], faults = [], oplog = [], driver = None\<rparr>"
  let ?u' = "\<lparr>Username = ''bob'', Password = [], Disable = True, PasswordHash = ''#pw''\<rparr>"
  let ?doc = "JObj [(''username'', JStr ''bob''), (''disable'', JBool True),
                    (''password_hash'', JBytes ''#pw'')]"
  let ?s' = "\<lparr>kv = [(''/ccn_proxy/local_users/bob'', ?doc)], faults = [],
       oplog = [OpRead ''/ccn_proxy/local_users/bob'', OpWrite ''/ccn_proxy/local_users/bob'' ?doc],
       driver = None\<rparr>"
  have run: "AddLocalUser ?gen ?u ?s0 = (None, ?u', ?s')"
    by (simp add: run_defs)
  from local_add_persists_digest_only [of ?gen ?u ?s0 ?u' ?s'] run
  have "map_of (kv ?s') (GetPath RootLocalUsers [Username ?u]) = Some (marshal_LocalUser ?u')"
    by blast
  then have "map_of (kv ?s') ''/ccn_proxy/local_users/bob'' = Some ?doc"
    by (simp add: GetPath_def RootLocalUsers_def marshal_LocalUser_def)
  with run show ?thesis
    by simp
qed

section \<open>The authorization view\<close>

text \<open>
  C9. The authorization view strips the tenant prefix from the stored claim key: a
  claim whose key is "tenant:" followed by a name yields that name as its tenant
  field, and a claim with the empty (global) key yields the empty tenant field.
\<close>

theorem convertAuthz_tenant:
  "(authz_ClaimKey authz = TenantClaimKey @ name
      \<longrightarrow> reply_TenantName (convertAuthz authz) = name)
   \<and> (authz_ClaimKey authz = '''' \<longrightarrow> reply_TenantName (convertAuthz authz) = '''')"
  by (simp add: convertAuthz_def TrimPrefix_def TenantClaimKey_def)

theorem convertAuthz_tenant_witness:
  "reply_TenantName (convertAuthz
      \<lparr> authz_UUID = ''a1'', authz_PrincipalName = ''eng'', authz_ClaimKey = ''tenant:blue'',
        authz_ClaimValue = ''ops'', authz_Local = False \<rparr>) = ''blue''
   \<and> reply_TenantName (convertAuthz
      \<lparr> authz_UUID = ''a2'', authz_PrincipalName = ''eng'', authz_ClaimKey = '''',
        authz_ClaimValue = ''admin'', authz_Local = True \<rparr>) = ''''"
  using convertAuthz_tenant [of "\<lparr> authz_UUID = ''a1'', authz_PrincipalName = ''eng'',
          authz_ClaimKey = ''tenant:blue'', authz_ClaimValue = ''ops'', authz_Local = False \<rparr>" "''blue''"]
        convertAuthz_tenant [of "\<lparr> authz_UUID = ''a2'', authz_PrincipalName = ''eng'',
          authz_ClaimKey = '''', authz_ClaimValue = ''admin'', authz_Local = True \<rparr>" "''''"]
  by (simp add: TenantClaimKey_def)

section \<open>Roles and their strings\<close>

text \<open>
  C10. Role-string conversion round-trips on the valid roles and rejects everything
  else: \<open>Role\<close> of the string of Admin and of Ops gives the role back with no error;
  every string other than "admin" and "ops" (the empty string included) gives Invalid
  with the illegal-argument error; and the string of Invalid is empty.
\<close>

theorem Role_String_roundtrip:
  "Role (RoleType_String Admin) = (Admin, None)
   \<and> Role (RoleType_String Ops) = (Ops, None)
   \<and> (\<forall>s. s \<noteq> ''admin'' \<and> s \<noteq> ''ops'' \<longrightarrow> Role s = (Invalid, Some ErrIllegalArgument))
   \<and> Role '''' = (Invalid, Some ErrIllegalArgument)
   \<and> RoleType_String Invalid = ''''"
  by (simp add: Role_def RoleType_String_def Admin_def Ops_def Invalid_def)

theorem Role_String_roundtrip_witness:
  "''bogus'' \<noteq> ''admin'' \<and> ''bogus'' \<noteq> ''ops''
   \<and> Role ''bogus'' = (Invalid, Some ErrIllegalArgument)
   \<and> Role ''admin'' = (0, None) \<and> Role ''ops'' = (1, None)"
proof -
  have bogus: "Role ''bogus'' = (Invalid, Some ErrIllegalArgument)"
    using Role_String_roundtrip by simp
  have valid: "Role ''admin'' = (0, None) \<and> Role ''ops'' = (1, None)"
    using Role_String_roundtrip by (simp add: RoleType_String_def Admin_def Ops_def)
  show ?thesis
    using bogus valid by simp
qed

end
